theory Spec2Isabelle
  imports Complex_Main "HOL-Library.Sublist" "HOL-Library.AList"
begin

section \<open>Vity CLI: the do/chat branch of \<open>main\<close> (src/vity/cli.py)\<close>

text \<open>
  The development embeds lines 162 to 276 of \<open>cli.py\<close>: reading the two context files,
  calling the generation collaborator, stripping the terminal-history tag from the last
  user message, extracting and printing the assistant's answer, appending to the shell
  history file and writing the chat file back.

  A Python \<open>str\<close> is modelled by its UTF-8 encoding (a \<open>string\<close>, one \<open>char\<close> per byte).
  The string operations the source uses (\<open>in\<close>, \<open>split\<close>, \<open>replace\<close>, \<open>join\<close>,
  concatenation) search for and build ASCII-delimited pieces, and on valid UTF-8 they give
  the encoding of what Python computes on code points.
\<close>

subsection \<open>Python string operations\<close>

text \<open>
  \<open>find_first sep s\<close> locates the leftmost occurrence of \<open>sep\<close> in \<open>s\<close>, as
  \<open>str.find\<close> does, and returns the text before it and the text after it.
\<close>

fun find_first :: "string \<Rightarrow> string \<Rightarrow> (string \<times> string) option" where
  "find_first sep [] = (if sep = [] then Some ([], []) else None)"
| "find_first sep (c # cs) =
     (if prefix sep (c # cs) then Some ([], drop (length sep) (c # cs))
      else (case find_first sep cs of
              None \<Rightarrow> None
            | Some (a, b) \<Rightarrow> Some (c # a, b)))"

text \<open>\<open>sub in s\<close> on two strings.\<close>

definition py_contains :: "string \<Rightarrow> string \<Rightarrow> bool" where
  "py_contains sub s = (find_first sub s \<noteq> None)"

lemma find_first_append:
  "find_first sep s = Some (a, b) \<Longrightarrow> s = a @ sep @ b"
proof (induction s arbitrary: a b)
  case Nil
  then show ?case by (simp split: if_splits)
next
  case (Cons c cs)
  show ?case
  proof (cases "prefix sep (c # cs)")
    case True
    then obtain zs where zs: "c # cs = sep @ zs" by (auto simp: prefix_def)
    from True Cons.prems have "a = []" "b = drop (length sep) (c # cs)" by simp_all
    with zs show ?thesis by simp
  next
    case False
    with Cons.prems obtain a' where "find_first sep cs = Some (a', b)" "a = c # a'"
      by (auto split: option.splits)
    with Cons.IH show ?thesis by simp
  qed
qed

lemma find_first_shorter:
  "find_first sep s = Some (a, b) \<Longrightarrow> sep \<noteq> [] \<Longrightarrow> length b < length s"
  by (drule find_first_append) simp

text \<open>
  \<open>s.split(sep)\<close> for a non-empty separator: the pieces between the non-overlapping
  occurrences of \<open>sep\<close>, found left to right. (Python raises \<open>ValueError\<close> for an empty
  separator; the source only ever passes the literal \<open>" # "\<close>.)
\<close>

function py_split :: "string \<Rightarrow> string \<Rightarrow> string list" where
  "py_split sep s =
     (if sep = [] then [s]
      else (case find_first sep s of
              None \<Rightarrow> [s]
            | Some (a, b) \<Rightarrow> a # py_split sep b))"
  by pat_completeness auto
termination
  by (relation "measure (\<lambda>(sep, s). length s)") (auto dest: find_first_shorter)

text \<open>
  \<open>s.replace(old, new)\<close>: every non-overlapping occurrence of \<open>old\<close>, found left to
  right, is replaced by \<open>new\<close>. For an empty \<open>old\<close> Python inserts \<open>new\<close> before every
  character and at the end.
\<close>

function py_replace :: "string \<Rightarrow> string \<Rightarrow> string \<Rightarrow> string" where
  "py_replace old new s =
     (if old = [] then new @ concat (map (\<lambda>c. c # new) s)
      else (case find_first old s of
              None \<Rightarrow> s
            | Some (a, b) \<Rightarrow> a @ new @ py_replace old new b))"
  by pat_completeness auto
termination
  by (relation "measure (\<lambda>(old, new, s). length s)") (auto dest: find_first_shorter)

declare py_split.simps [simp del]
declare py_replace.simps [simp del]

text \<open>\<open>sep.join(xs)\<close> on a list of strings.\<close>

fun py_join :: "string \<Rightarrow> string list \<Rightarrow> string" where
  "py_join sep [] = []"
| "py_join sep [x] = x"
| "py_join sep (x # y # ys) = x @ sep @ py_join sep (y # ys)"

subsection \<open>Exceptions\<close>

text \<open>
  An exception is its class and the text \<open>str(e)\<close> gives. The classes are the ones the
  handlers of the source tell apart (\<open>FileNotFoundError\<close>, \<open>json.JSONDecodeError\<close>,
  \<open>IOError\<close>/\<open>OSError\<close>) and the ones the interpreter raises on ill-shaped data; every value
  of the type is an instance of \<open>Exception\<close>, which is what the handler of line 274 catches.
\<close>

datatype exn_class =
    FileNotFoundError | PermissionError | IsADirectoryError | OSError
  | JSONDecodeError | UnicodeDecodeError | ValueError
  | KeyError | IndexError | TypeError | AttributeError | RuntimeError

datatype exn = Exn exn_class string

fun class_of :: "exn \<Rightarrow> exn_class" where
  "class_of (Exn c m) = c"

fun str_of :: "exn \<Rightarrow> string" where
  "str_of (Exn c m) = m"

text \<open>
  \<open>except (IOError, OSError)\<close>: \<open>IOError\<close> is \<open>OSError\<close> in Python 3, and
  \<open>FileNotFoundError\<close>, \<open>PermissionError\<close> and \<open>IsADirectoryError\<close> are its subclasses.
\<close>

fun is_OSError :: "exn_class \<Rightarrow> bool" where
  "is_OSError FileNotFoundError = True"
| "is_OSError PermissionError = True"
| "is_OSError IsADirectoryError = True"
| "is_OSError OSError = True"
| "is_OSError _ = False"

subsection \<open>Python values\<close>

text \<open>
  The chat history is what \<open>json.load\<close> and the generation collaborator return: lists and
  dictionaries of JSON values, used by the source through subscripts and \<open>.get\<close>. A
  dictionary is an association list with string keys (JSON objects have no other), read
  with \<open>map_of\<close>; values are trees, without sharing between messages.
\<close>

datatype pyval =
    PyNone | PyBool bool | PyInt int | PyFloat real | PyStr string
  | PyList "pyval list" | PyDict "(string \<times> pyval) list"

definition squote :: string where
  "squote = [CHR 0x27]"

fun type_name :: "pyval \<Rightarrow> string" where
  "type_name PyNone = ''NoneType''"
| "type_name (PyBool b) = ''bool''"
| "type_name (PyInt i) = ''int''"
| "type_name (PyFloat r) = ''float''"
| "type_name (PyStr s) = ''str''"
| "type_name (PyList xs) = ''list''"
| "type_name (PyDict kvs) = ''dict''"

text \<open>
  \<open>obj[key]\<close> with a string key. The messages are CPython's; no property below depends
  on their wording.
\<close>

fun getitem_key :: "pyval \<Rightarrow> string \<Rightarrow> exn + pyval" where
  "getitem_key (PyDict kvs) k =
     (case map_of kvs k of
        Some v \<Rightarrow> Inr v
      | None \<Rightarrow> Inl (Exn KeyError (squote @ k @ squote)))"
| "getitem_key (PyList xs) k =
     Inl (Exn TypeError ''list indices must be integers or slices, not str'')"
| "getitem_key (PyStr s) k = Inl (Exn TypeError ''string indices must be integers'')"
| "getitem_key obj k =
     Inl (Exn TypeError (squote @ type_name obj @ squote @ '' object is not subscriptable''))"

text \<open>
  \<open>obj[0]\<close>. On a string it is the first character: the first byte of the encoding and
  the continuation bytes that follow it.
\<close>

definition is_continuation :: "char \<Rightarrow> bool" where
  "is_continuation c = (128 \<le> (of_char c :: nat) \<and> (of_char c :: nat) < 192)"

fun getitem_0 :: "pyval \<Rightarrow> exn + pyval" where
  "getitem_0 (PyList []) = Inl (Exn IndexError ''list index out of range'')"
| "getitem_0 (PyList (x # xs)) = Inr x"
| "getitem_0 (PyStr []) = Inl (Exn IndexError ''string index out of range'')"
| "getitem_0 (PyStr (c # cs)) = Inr (PyStr (c # takeWhile is_continuation cs))"
| "getitem_0 (PyDict kvs) = Inl (Exn KeyError ''0'')"
| "getitem_0 obj =
     Inl (Exn TypeError (squote @ type_name obj @ squote @ '' object is not subscriptable''))"

text \<open>\<open>obj.get(key, default)\<close>; \<open>obj.get(key)\<close> is \<open>py_get obj key PyNone\<close>.\<close>

fun py_get :: "pyval \<Rightarrow> string \<Rightarrow> pyval \<Rightarrow> exn + pyval" where
  "py_get (PyDict kvs) k d = (case map_of kvs k of Some v \<Rightarrow> Inr v | None \<Rightarrow> Inr d)"
| "py_get obj k d =
     Inl (Exn AttributeError
       (squote @ type_name obj @ squote @ '' object has no attribute '' @ squote @ ''get'' @ squote))"

text \<open>Truthiness, as \<open>if obj:\<close> tests it.\<close>

fun truthy :: "pyval \<Rightarrow> bool" where
  "truthy PyNone = False"
| "truthy (PyBool b) = b"
| "truthy (PyInt i) = (i \<noteq> 0)"
| "truthy (PyFloat r) = (r \<noteq> 0)"
| "truthy (PyStr s) = (s \<noteq> [])"
| "truthy (PyList xs) = (xs \<noteq> [])"
| "truthy (PyDict kvs) = (kvs \<noteq> [])"

subsection \<open>Stripping the tag from the last user message (lines 199-202, 253-256)\<close>

text \<open>
  \<open>remove_terminal_history_tags\<close> lives in \<open>vity/llm.py\<close>; it is a parameter \<open>rt\<close> here:
  any function of the text it is given, which may raise.

  The assignment \<open>message["content"][0]["text"] = v\<close> evaluates \<open>message["content"][0]\<close>
  and stores \<open>v\<close> under the key \<open>"text"\<close> of that dictionary, in place: the key keeps its
  position, and nothing else of the message changes. (The last branch of
  \<open>set_first_text\<close> is never taken: when \<open>obj[0]\<close> succeeds on something other than a
  non-empty list it yields a string, and the store into a string raises.)
\<close>

fun setitem_key :: "pyval \<Rightarrow> string \<Rightarrow> pyval \<Rightarrow> exn + pyval" where
  "setitem_key (PyDict kvs) k v = Inr (PyDict (AList.update k v kvs))"
| "setitem_key obj k v =
     Inl (Exn TypeError
       (squote @ type_name obj @ squote @ '' object does not support item assignment''))"

fun set_first_text :: "pyval \<Rightarrow> pyval \<Rightarrow> exn + pyval" where
  "set_first_text (PyDict kvs) v =
     (case getitem_key (PyDict kvs) ''content'' of
        Inl e \<Rightarrow> Inl e
      | Inr content \<Rightarrow>
          (case getitem_0 content of
             Inl e \<Rightarrow> Inl e
           | Inr part \<Rightarrow>
               (case setitem_key part ''text'' v of
                  Inl e \<Rightarrow> Inl e
                | Inr part' \<Rightarrow>
                    (case content of
                       PyList (p # ps) \<Rightarrow>
                         Inr (PyDict (AList.update ''content'' (PyList (part' # ps)) kvs))
                     | _ \<Rightarrow> Inr (PyDict kvs)))))"
| "set_first_text obj v = getitem_key obj ''content''"

definition strip_message :: "(pyval \<Rightarrow> exn + pyval) \<Rightarrow> pyval \<Rightarrow> exn + pyval" where
  "strip_message rt message =
     (case getitem_key message ''content'' of
        Inl e \<Rightarrow> Inl e
      | Inr content \<Rightarrow>
          (case getitem_0 content of
             Inl e \<Rightarrow> Inl e
           | Inr part \<Rightarrow>
               (case getitem_key part ''text'' of
                  Inl e \<Rightarrow> Inl e
                | Inr t \<Rightarrow>
                    (case rt t of
                       Inl e \<Rightarrow> Inl e
                     | Inr t' \<Rightarrow> set_first_text message t'))))"

text \<open>
  The loop \<open>for message in reversed(updated_chat_history)\<close>, on the reversed list: the
  first message whose \<open>message["role"]\<close> equals \<open>"user"\<close> is stripped and the loop
  breaks; \<open>message["role"]\<close> raises on a message without that key.
\<close>

fun strip_loop :: "(pyval \<Rightarrow> exn + pyval) \<Rightarrow> pyval list \<Rightarrow> exn + pyval list" where
  "strip_loop rt [] = Inr []"
| "strip_loop rt (message # rest) =
     (case getitem_key message ''role'' of
        Inl e \<Rightarrow> Inl e
      | Inr role \<Rightarrow>
          if role = PyStr ''user''
          then (case strip_message rt message of
                  Inl e \<Rightarrow> Inl e
                | Inr message' \<Rightarrow> Inr (message' # rest))
          else (case strip_loop rt rest of
                  Inl e \<Rightarrow> Inl e
                | Inr rest' \<Rightarrow> Inr (message # rest')))"

definition strip_last_user :: "(pyval \<Rightarrow> exn + pyval) \<Rightarrow> pyval list \<Rightarrow> exn + pyval list" where
  "strip_last_user rt history =
     (case strip_loop rt (rev history) of
        Inl e \<Rightarrow> Inl e
      | Inr r \<Rightarrow> Inr (rev r))"

subsection \<open>The last assistant message (lines 205-209, 259-263)\<close>

text \<open>
  \<open>for msg in reversed(updated_chat_history): if msg.get("role") == "assistant"\<close>, on
  the reversed list; \<open>None\<close> when the loop ends without a match.
\<close>

fun find_assistant :: "pyval list \<Rightarrow> exn + pyval option" where
  "find_assistant [] = Inr None"
| "find_assistant (msg # rest) =
     (case py_get msg ''role'' PyNone of
        Inl e \<Rightarrow> Inl e
      | Inr role \<Rightarrow>
          if role = PyStr ''assistant'' then Inr (Some msg) else find_assistant rest)"

definition last_assistant :: "pyval list \<Rightarrow> exn + pyval option" where
  "last_assistant history = find_assistant (rev history)"

text \<open>
  \<open>last_assistant_msg.get("content", [{}])[0].get("text", "")\<close> (lines 213 and 266).
\<close>

definition message_text :: "pyval \<Rightarrow> exn + pyval" where
  "message_text msg =
     (case py_get msg ''content'' (PyList [PyDict []]) of
        Inl e \<Rightarrow> Inl e
      | Inr content \<Rightarrow>
          (case getitem_0 content of
             Inl e \<Rightarrow> Inl e
           | Inr part \<Rightarrow> py_get part ''text'' (PyStr [])))"

subsection \<open>The Response Parser (lines 214-219)\<close>

definition delimiter :: string where
  "delimiter = '' # ''"

definition marker :: string where
  "marker = '' * vity generated command''"

text \<open>
  \<open>xs[0]\<close> and \<open>xs[1]\<close> on the list \<open>split\<close> returns, with Python's \<open>IndexError\<close>.
\<close>

fun index_0 :: "string list \<Rightarrow> exn + string" where
  "index_0 (x # xs) = Inr x"
| "index_0 [] = Inl (Exn IndexError ''list index out of range'')"

fun index_1 :: "string list \<Rightarrow> exn + string" where
  "index_1 (x # y # ys) = Inr y"
| "index_1 xs = Inl (Exn IndexError ''list index out of range'')"

text \<open>
  The branch on a string \<open>content\<close>:
  \<^verbatim>\<open>
    if " # " in content:
        cmd_part = content.split(" # ")[0]
        comment_part = content.split(" # ")[1].replace(" * vity generated command", "")
        cmd_string = f"{cmd_part} # {comment_part}"
    else:
        cmd_string = content
  \<close>
\<close>

definition cmd_string_of :: "string \<Rightarrow> exn + string" where
  "cmd_string_of content =
     (if py_contains delimiter content
      then (case index_0 (py_split delimiter content) of
              Inl e \<Rightarrow> Inl e
            | Inr cmd_part \<Rightarrow>
                (case index_1 (py_split delimiter content) of
                   Inl e \<Rightarrow> Inl e
                 | Inr seg \<Rightarrow>
                     Inr (cmd_part @ '' # '' @ py_replace marker [] seg)))
      else Inr content)"

text \<open>
  The same branch on any value \<open>content\<close> may hold. \<open>" # " in content\<close> is a substring
  test on a string, a membership test on a list, a key test on a dictionary, and a
  \<open>TypeError\<close> otherwise; only a string has \<open>split\<close>. Without the delimiter \<open>cmd_string\<close>
  is \<open>content\<close> itself, whatever its type.
\<close>

fun delimiter_in :: "pyval \<Rightarrow> exn + bool" where
  "delimiter_in (PyStr s) = Inr (py_contains delimiter s)"
| "delimiter_in (PyList xs) = Inr (PyStr delimiter \<in> set xs)"
| "delimiter_in (PyDict kvs) = Inr (map_of kvs delimiter \<noteq> None)"
| "delimiter_in obj =
     Inl (Exn TypeError (''argument of type '' @ squote @ type_name obj @ squote @ '' is not iterable''))"

definition cmd_string :: "pyval \<Rightarrow> exn + pyval" where
  "cmd_string content =
     (case delimiter_in content of
        Inl e \<Rightarrow> Inl e
      | Inr False \<Rightarrow> Inr content
      | Inr True \<Rightarrow>
          (case content of
             PyStr s \<Rightarrow> (case cmd_string_of s of Inl e \<Rightarrow> Inl e | Inr c \<Rightarrow> Inr (PyStr c))
           | _ \<Rightarrow>
               Inl (Exn AttributeError
                 (squote @ type_name content @ squote @ '' object has no attribute ''
                   @ squote @ ''split'' @ squote))))"

subsection \<open>The environment and the trace of an invocation\<close>

text \<open>
  Everything outside \<open>cli.py\<close> that the branch calls is a field of the environment: the
  two file reads, the two generation functions and \<open>remove_terminal_history_tags\<close> of
  \<open>vity/llm.py\<close>, the base URL of \<open>vity.config\<close>, the \<open>SHELL\<close> variable, the clock, the
  two file writes, and \<open>str()\<close> on a value that is not a string (used by the f-strings and
  by \<open>print\<close>). A read returns the text or the exception it raises; a write returns the
  exception it raises, if any.

  Not modelled as failing: \<open>print\<close>, \<open>Path.home()\<close>, \<open>time.time()\<close> and the import of
  \<open>vity.config\<close>.
\<close>

datatype mode = Do | Chat

datatype path = Path string | Home string

record args =
  command :: mode
  prompt :: "string list"
  history_file :: "string option"
  chat_file :: "string option"

record env =
  vity_llm_base_url :: string
  read_text :: "string \<Rightarrow> exn + string"
  json_load :: "string \<Rightarrow> exn + pyval"
  generate_command :: "string \<Rightarrow> pyval \<Rightarrow> string \<Rightarrow> string \<Rightarrow> exn + pyval list"
  generate_chat_response :: "string \<Rightarrow> pyval \<Rightarrow> string \<Rightarrow> string \<Rightarrow> exn + pyval list"
  remove_terminal_history_tags :: "pyval \<Rightarrow> exn + pyval"
  py_str :: "pyval \<Rightarrow> string"
  environ_SHELL :: "string option"
  time_time :: int
  append_text :: "path \<Rightarrow> string \<Rightarrow> exn option"
  open_w :: "string \<Rightarrow> exn option"
  json_dump :: "string \<Rightarrow> pyval list \<Rightarrow> exn option"

text \<open>
  What an invocation does, in order: a line printed on standard output; a call of the
  generation collaborator with its four arguments; text appended to a file, or an append
  that raised; a file opened with mode \<open>"w"\<close>, which truncates it; the history written
  into it by \<open>json.dump\<close>, or a \<open>json.dump\<close> that raised after the file was truncated.
\<close>

datatype event =
    Print string
  | Generate mode string pyval string string
  | Appended path string
  | Append_failed path
  | Truncated path
  | Dumped path "pyval list"
  | Dump_failed path

text \<open>
  How the process ends: \<open>main\<close> returns (exit status 0), \<open>sys.exit(1)\<close> in the handler
  of line 274, or an exception no handler caught.
\<close>

datatype status = Returned | Exited nat | Uncaught exn

text \<open>\<open>if args.history_file:\<close> - the option is absent or the empty string.\<close>

fun given :: "string option \<Rightarrow> bool" where
  "given None = False"
| "given (Some p) = (p \<noteq> [])"

text \<open>The f-string \<open>{v}\<close>: a string as it is, any other value through \<open>str()\<close>.\<close>

definition format_value :: "env \<Rightarrow> pyval \<Rightarrow> string" where
  "format_value E v = (case v of PyStr s \<Rightarrow> s | _ \<Rightarrow> py_str E v)"

text \<open>Decimal digits of an integer, as \<open>{int(time.time())}\<close> prints it.\<close>

definition digit :: "nat \<Rightarrow> char" where
  "digit d = ''0123456789'' ! d"

function str_nat :: "nat \<Rightarrow> string" where
  "str_nat n =
     (if n < 10 then [digit n]
      else str_nat (n div 10) @ [digit (n mod 10)])"
  by pat_completeness auto
termination
  by (relation "measure id") auto

declare str_nat.simps [simp del]

definition str_int :: "int \<Rightarrow> string" where
  "str_int i = (if i < 0 then ''-'' @ str_nat (nat (- i)) else str_nat (nat i))"

definition warning_sign :: string where
  "warning_sign = [CHR 0xE2, CHR 0x9A, CHR 0xA0, CHR 0xEF, CHR 0xB8, CHR 0x8F]"

definition robot_face :: string where
  "robot_face = [CHR 0xF0, CHR 0x9F, CHR 0xA4, CHR 0x96]"

definition cross_mark :: string where
  "cross_mark = [CHR 0xE2, CHR 0x9D, CHR 0x8C]"

subsection \<open>Sequencing\<close>

text \<open>
  A step yields the events it caused and either the exception it raised or its value;
  \<open>bind_run\<close> runs a second step after a first one that did not raise.
\<close>

type_synonym 'a run = "event list \<times> (exn + 'a)"

definition bind_run :: "'a run \<Rightarrow> ('a \<Rightarrow> 'b run) \<Rightarrow> 'b run" where
  "bind_run r f =
     (case r of
        (evs, Inl e) \<Rightarrow> (evs, Inl e)
      | (evs, Inr x) \<Rightarrow> (case f x of (evs', y) \<Rightarrow> (evs @ evs', y)))"

subsection \<open>Loading the context files (lines 170-190)\<close>

definition history_warning :: "string \<Rightarrow> string" where
  "history_warning p =
     warning_sign @ ''  Warning: history file '' @ squote @ p @ squote @ '' not found''"

definition chat_warning :: "string \<Rightarrow> string" where
  "chat_warning p =
     warning_sign @ ''  Warning: chat file '' @ squote @ p @ squote
       @ '' contains invalid JSON, starting fresh''"

definition load_terminal_history :: "env \<Rightarrow> args \<Rightarrow> string run" where
  "load_terminal_history E A =
     (case history_file A of
        None \<Rightarrow> ([], Inr [])
      | Some p \<Rightarrow>
          if \<not> given (Some p) then ([], Inr [])
          else (case read_text E p of
                  Inr terminal_history \<Rightarrow> ([], Inr terminal_history)
                | Inl e \<Rightarrow>
                    if class_of e = FileNotFoundError
                    then ([Print (history_warning p)], Inr [])
                    else ([], Inl e)))"

definition load_chat_history :: "env \<Rightarrow> args \<Rightarrow> pyval run" where
  "load_chat_history E A =
     (case chat_file A of
        None \<Rightarrow> ([], Inr (PyList []))
      | Some p \<Rightarrow>
          if \<not> given (Some p) then ([], Inr (PyList []))
          else (case json_load E p of
                  Inr chat_history \<Rightarrow> ([], Inr chat_history)
                | Inl e \<Rightarrow>
                    if class_of e = FileNotFoundError then ([], Inr (PyList []))
                    else if class_of e = JSONDecodeError
                    then ([Print (chat_warning p)], Inr (PyList []))
                    else ([], Inl e)))"

subsection \<open>The handled region (lines 194-276)\<close>

definition provider_of :: "env \<Rightarrow> string" where
  "provider_of E =
     (if py_contains ''googleapis'' (vity_llm_base_url E) then ''google'' else ''openai'')"

text \<open>
  Lines 226-242: the shell history file is chosen by \<open>"zsh" in shell\<close>, and an
  \<open>OSError\<close> of the append is passed over; any other exception leaves the inner \<open>try\<close>.
\<close>

definition shell_of :: "env \<Rightarrow> string" where
  "shell_of E = (case environ_SHELL E of None \<Rightarrow> ''/bin/bash'' | Some s \<Rightarrow> s)"

definition shell_history_file :: "env \<Rightarrow> path" where
  "shell_history_file E =
     (if py_contains ''zsh'' (shell_of E) then Home ''.zsh_history'' else Home ''.bash_history'')"

definition shell_history_line :: "env \<Rightarrow> string \<Rightarrow> string" where
  "shell_history_line E c =
     (if py_contains ''zsh'' (shell_of E)
      then '': '' @ str_int (time_time E) @ '':0;'' @ c @ [CHR 0x0A]
      else c @ [CHR 0x0A])"

definition append_history :: "env \<Rightarrow> string \<Rightarrow> unit run" where
  "append_history E c =
     (case append_text E (shell_history_file E) (shell_history_line E c) of
        None \<Rightarrow> ([Appended (shell_history_file E) (shell_history_line E c)], Inr ())
      | Some e \<Rightarrow>
          if is_OSError (class_of e) then ([Append_failed (shell_history_file E)], Inr ())
          else ([Append_failed (shell_history_file E)], Inl e))"

text \<open>Lines 213-242, for a last assistant message \<open>msg\<close>.\<close>

definition emit_command :: "env \<Rightarrow> pyval \<Rightarrow> unit run" where
  "emit_command E msg =
     bind_run ([], message_text msg) (\<lambda>content.
     bind_run ([], cmd_string content) (\<lambda>c.
     bind_run ([Print (''Command: '' @ format_value E c),
                Print (''__VITY_CMD__:'' @ format_value E c)], Inr ()) (\<lambda>_.
     append_history E (format_value E c))))"

text \<open>Lines 266-267.\<close>

definition emit_chat :: "env \<Rightarrow> pyval \<Rightarrow> unit run" where
  "emit_chat E msg =
     bind_run ([], message_text msg) (\<lambda>content.
     ([Print (format_value E content)], Inr ()))"

text \<open>
  Lines 246-248 and 270-272: \<open>open(args.chat_file, "w")\<close> truncates the file when it
  succeeds, then \<open>json.dump\<close> writes the history.
\<close>

definition save_chat :: "env \<Rightarrow> args \<Rightarrow> pyval list \<Rightarrow> unit run" where
  "save_chat E A history =
     (case chat_file A of
        None \<Rightarrow> ([], Inr ())
      | Some p \<Rightarrow>
          if \<not> given (Some p) then ([], Inr ())
          else (case open_w E p of
                  Some e \<Rightarrow> ([], Inl e)
                | None \<Rightarrow>
                    (case json_dump E p history of
                       None \<Rightarrow> ([Truncated (Path p), Dumped (Path p) history], Inr ())
                     | Some e \<Rightarrow> ([Truncated (Path p), Dump_failed (Path p)], Inl e))))"

definition user_input_of :: "args \<Rightarrow> string" where
  "user_input_of A = py_join '' '' (prompt A)"

definition generate :: "env \<Rightarrow> args \<Rightarrow> string \<Rightarrow> pyval \<Rightarrow> pyval list run" where
  "generate E A terminal_history chat_history =
     ([Generate (command A) terminal_history chat_history (user_input_of A) (provider_of E)],
      (case command A of
         Do \<Rightarrow> generate_command E terminal_history chat_history (user_input_of A) (provider_of E)
       | Chat \<Rightarrow>
           generate_chat_response E terminal_history chat_history (user_input_of A) (provider_of E)))"

definition emit :: "env \<Rightarrow> args \<Rightarrow> pyval option \<Rightarrow> unit run" where
  "emit E A last_assistant_msg =
     (case last_assistant_msg of
        None \<Rightarrow> ([], Inr ())
      | Some msg \<Rightarrow>
          if truthy msg
          then (case command A of Do \<Rightarrow> emit_command E msg | Chat \<Rightarrow> emit_chat E msg)
          else ([], Inr ()))"

text \<open>The body of the \<open>try\<close>: both branches run the same five steps.\<close>

definition body :: "env \<Rightarrow> args \<Rightarrow> string \<Rightarrow> pyval \<Rightarrow> unit run" where
  "body E A terminal_history chat_history =
     bind_run (generate E A terminal_history chat_history) (\<lambda>updated_chat_history.
     bind_run ([], strip_last_user (remove_terminal_history_tags E) updated_chat_history) (\<lambda>stripped.
     bind_run ([], last_assistant stripped) (\<lambda>last_assistant_msg.
     bind_run (emit E A last_assistant_msg) (\<lambda>_.
     save_chat E A stripped))))"

definition error_line :: "exn \<Rightarrow> string" where
  "error_line e = cross_mark @ '' Error: '' @ str_of e"

definition handled :: "env \<Rightarrow> args \<Rightarrow> string \<Rightarrow> pyval \<Rightarrow> event list \<times> status" where
  "handled E A terminal_history chat_history =
     (case body E A terminal_history chat_history of
        (evs, Inl e) \<Rightarrow> (evs @ [Print (error_line e)], Exited 1)
      | (evs, Inr u) \<Rightarrow> (evs, Returned))"

subsection \<open>The whole branch\<close>

definition thinking :: string where
  "thinking = robot_face @ '' Vity is thinking...''"

definition main :: "env \<Rightarrow> args \<Rightarrow> event list \<times> status" where
  "main E A =
     (case load_terminal_history E A of
        (evs1, Inl e) \<Rightarrow> (evs1, Uncaught e)
      | (evs1, Inr terminal_history) \<Rightarrow>
          (case load_chat_history E A of
             (evs2, Inl e) \<Rightarrow> (evs1 @ evs2, Uncaught e)
           | (evs2, Inr chat_history) \<Rightarrow>
               (case handled E A terminal_history chat_history of
                  (evs3, st) \<Rightarrow> (evs1 @ evs2 @ [Print thinking] @ evs3, st))))"

subsection \<open>Predicates used in the statements\<close>

text \<open>A message the first loop takes for a user message: \<open>message["role"] == "user"\<close>.\<close>

definition is_user :: "pyval \<Rightarrow> bool" where
  "is_user message = (getitem_key message ''role'' = Inr (PyStr ''user''))"


text \<open>The events that change the chat file.\<close>

fun writes_chat_file :: "event \<Rightarrow> bool" where
  "writes_chat_file (Truncated p) = True"
| "writes_chat_file (Dumped p h) = True"
| "writes_chat_file (Dump_failed p) = True"
| "writes_chat_file ev = False"

subsection \<open>A concrete invocation\<close>

text \<open>
  The scenario of the specification: the prompt \<open>list files\<close>, a collaborator that appends
  a user message carrying the terminal history in a tag and the assistant's answer
  \<open>ls -la # lists all files * vity generated command\<close>, and a tag codec that removes that
  tag. No file exists, and every write succeeds.
\<close>

definition example_user :: pyval where
  "example_user =
     PyDict [(''role'', PyStr ''user''),
             (''content'', PyList [PyDict [(''text'', PyStr ''<history>$ pwd</history>list files'')]])]"

definition example_user_stripped :: pyval where
  "example_user_stripped =
     PyDict [(''role'', PyStr ''user''),
             (''content'', PyList [PyDict [(''text'', PyStr ''list files'')]])]"

definition example_assistant :: pyval where
  "example_assistant =
     PyDict [(''role'', PyStr ''assistant''),
             (''content'',
              PyList [PyDict [(''text'', PyStr ''ls -la # lists all files * vity generated command'')]])]"

definition example_chat_assistant :: pyval where
  "example_chat_assistant =
     PyDict [(''role'', PyStr ''assistant''),
             (''content'', PyList [PyDict [(''text'', PyStr ''Use grep -r to search recursively.'')]])]"

definition example_strip :: "pyval \<Rightarrow> exn + pyval" where
  "example_strip v =
     (case v of
        PyStr s \<Rightarrow> Inr (PyStr (py_replace ''<history>$ pwd</history>'' [] s))
      | _ \<Rightarrow> Inl (Exn TypeError ''expected string or bytes-like object''))"

definition no_such_file :: exn where
  "no_such_file = Exn FileNotFoundError ''[Errno 2] No such file or directory''"

definition permission_denied :: exn where
  "permission_denied = Exn PermissionError ''[Errno 13] Permission denied''"

definition malformed_json :: exn where
  "malformed_json = Exn JSONDecodeError ''Expecting value: line 1 column 1 (char 0)''"

definition connection_failed :: exn where
  "connection_failed = Exn RuntimeError ''Connection error.''"

definition disk_full :: exn where
  "disk_full = Exn OSError ''[Errno 28] No space left on device''"

definition example_env :: env where
  "example_env =
     \<lparr> vity_llm_base_url = ''https://api.openai.com/v1'',
       read_text = (\<lambda>p. Inl no_such_file),
       json_load = (\<lambda>p. Inl no_such_file),
       generate_command = (\<lambda>th ch ui pr. Inr [example_user, example_assistant]),
       generate_chat_response = (\<lambda>th ch ui pr. Inr [example_user, example_chat_assistant]),
       remove_terminal_history_tags = example_strip,
       py_str = (\<lambda>v. ''?''),
       environ_SHELL = Some ''/bin/zsh'',
       time_time = 1730000000,
       append_text = (\<lambda>p s. None),
       open_w = (\<lambda>p. None),
       json_dump = (\<lambda>p h. None) \<rparr>"

definition example_args :: args where
  "example_args =
     \<lparr> command = Do, prompt = [''list'', ''files''],
       history_file = Some ''session.log'', chat_file = Some ''chat.json'' \<rparr>"

lemmas run_defs =
  main_def handled_def body_def generate_def emit_def emit_command_def emit_chat_def
  save_chat_def append_history_def shell_history_file_def shell_history_line_def shell_of_def
  provider_of_def user_input_of_def load_terminal_history_def load_chat_history_def
  bind_run_def strip_last_user_def strip_message_def last_assistant_def message_text_def
  cmd_string_def cmd_string_of_def format_value_def error_line_def

lemmas string_defs =
  py_contains_def delimiter_def marker_def py_split.simps py_replace.simps
  str_int_def str_nat.simps digit_def squote_def

lemmas example_defs =
  example_env_def example_args_def example_user_def example_user_stripped_def
  example_assistant_def example_chat_assistant_def example_strip_def no_such_file_def
  permission_denied_def malformed_json_def connection_failed_def disk_full_def

section \<open>Properties\<close>

subsection \<open>Facts about the string operations\<close>

lemma prefix_shorter:
  "prefix sep (u @ v) \<Longrightarrow> length sep \<le> length u \<Longrightarrow> prefix sep u"
  by (auto simp: prefix_append)

lemma find_first_leftmost:
  "sep \<noteq> [] \<Longrightarrow> \<not> py_contains sep (a @ butlast sep) \<Longrightarrow>
   find_first sep (a @ sep @ b) = Some (a, b)"
proof (induction a)
  case Nil
  then obtain c cs where "sep = c # cs" by (cases sep) auto
  then show ?case by simp
next
  case (Cons x a)
  from Cons.prems(2) have np: "\<not> prefix sep (x # a @ butlast sep)"
    and nc: "\<not> py_contains sep (a @ butlast sep)"
    by (auto simp: py_contains_def split: if_splits option.splits)
  have "x # a @ sep @ b = (x # a @ butlast sep) @ (last sep # b)"
    using Cons.prems(1) by simp
  moreover have "length sep \<le> length (x # a @ butlast sep)"
    using Cons.prems(1) by (cases sep) auto
  ultimately have "\<not> prefix sep (x # a @ sep @ b)"
    using np prefix_shorter by metis
  with Cons.IH [OF Cons.prems(1) nc] show ?case by simp
qed

lemma py_split_none:
  "\<not> py_contains sep s \<Longrightarrow> py_split sep s = [s]"
  by (subst py_split.simps) (auto simp: py_contains_def split: option.splits)

lemma py_split_single:
  assumes "sep \<noteq> []" "\<not> py_contains sep (a @ butlast sep)" "\<not> py_contains sep b"
  shows "py_split sep (a @ sep @ b) = [a, b]"
  using assms find_first_leftmost [OF assms(1,2), of b]
  by (subst py_split.simps) (simp add: py_split_none)

lemma py_split_contains:
  assumes "py_contains sep s" "sep \<noteq> []"
  shows "\<exists>a b bs. find_first sep s = Some (a, b) \<and> py_split sep s = a # bs \<and> bs \<noteq> []"
proof -
  from assms(1) obtain a b where ab: "find_first sep s = Some (a, b)"
    by (auto simp: py_contains_def)
  have "py_split sep b \<noteq> []"
    by (subst py_split.simps) (auto split: option.splits)
  with ab assms(2) show ?thesis
    by (subst py_split.simps) simp
qed

lemma cmd_string_of_returns: "\<exists>n. cmd_string_of t = Inr n"
proof (cases "py_contains delimiter t")
  case True
  then obtain a b bs where "py_split delimiter t = a # bs" "bs \<noteq> []"
    using py_split_contains [of delimiter t] by (auto simp: delimiter_def)
  then obtain seg bs' where "py_split delimiter t = a # seg # bs'"
    by (cases bs) auto
  with True show ?thesis by (simp add: cmd_string_of_def)
next
  case False
  then show ?thesis by (simp add: cmd_string_of_def)
qed

lemma cmd_string_of_single:
  assumes "\<not> py_contains delimiter (a @ '' #'')" "\<not> py_contains delimiter b"
  shows "cmd_string_of (a @ delimiter @ b) = Inr (a @ '' # '' @ py_replace marker [] b)"
proof -
  have ne: "delimiter \<noteq> []" and bl: "butlast delimiter = '' #''"
    by (simp_all add: delimiter_def)
  from assms(1) bl have nc: "\<not> py_contains delimiter (a @ butlast delimiter)" by simp
  have sp: "py_split delimiter (a @ delimiter @ b) = [a, b]"
    using py_split_single [OF ne nc assms(2)] .
  have "py_contains delimiter (a @ delimiter @ b)"
    using find_first_leftmost [OF ne nc, of b] by (simp add: py_contains_def)
  with sp show ?thesis by (simp add: cmd_string_of_def)
qed

text \<open>
  When the text after the first delimiter holds the delimiter again, the comment is cut
  at that second occurrence.
\<close>

lemma second_delimiter_cuts_comment:
  assumes "find_first delimiter content = Some (a, rest)"
    and "find_first delimiter rest = Some (b, c)"
  shows "cmd_string_of content = Inr (a @ '' # '' @ py_replace marker [] b)"
proof -
  have ne: "delimiter \<noteq> []" by (simp add: delimiter_def)
  have "py_split delimiter rest = b # py_split delimiter c"
    using assms(2) ne by (subst py_split.simps) simp
  then have "py_split delimiter content = a # b # py_split delimiter c"
    using assms(1) ne by (subst py_split.simps) simp
  moreover have "py_contains delimiter content"
    using assms(1) by (simp add: py_contains_def)
  ultimately show ?thesis by (simp add: cmd_string_of_def)
qed

lemma cmd_string_PyStr:
  "cmd_string_of s = Inr n \<Longrightarrow> cmd_string (PyStr s) = Inr (PyStr n)"
  by (simp add: cmd_string_def cmd_string_of_def split: if_splits)

lemma emit_command_text:
  assumes "message_text msg = Inr (PyStr s)" "cmd_string_of s = Inr n"
  shows "emit_command E msg =
           bind_run ([Print (''Command: '' @ n), Print (''__VITY_CMD__:'' @ n)], Inr ())
             (\<lambda>_. append_history E n)"
  using assms cmd_string_PyStr [OF assms(2)]
  by (simp add: emit_command_def bind_run_def format_value_def)

subsection \<open>C1: several delimiters in the assistant's text\<close>

text \<open>
  Claim C1 says that when the assistant text holds the delimiter \<open>" # "\<close> more than once,
  only the first occurrence splits it: the command is the text before it and the comment
  is all the text after it, later delimiters included.

  The source takes \<open>content.split(" # ")[1]\<close> for the comment, and \<open>split\<close> cuts at every
  occurrence: the comment is the text between the first and the second delimiter, and
  what follows the second delimiter is dropped. On \<open>echo one # first # second\<close> the
  pieces are \<open>echo one\<close>, \<open>first\<close> and \<open>second\<close>, and the emitted string is
  \<open>echo one # first\<close>, not \<open>echo one # first # second\<close>.
\<close>

theorem first_delimiter_only_evaluated:
  "py_split delimiter ''echo one # first # second'' = [''echo one'', ''first'', ''second'']
   \<and> cmd_string_of ''echo one # first # second'' = Inr ''echo one # first''
   \<and> cmd_string_of ''echo one # first # second'' \<noteq> Inr ''echo one # first # second''"
  by (simp add: cmd_string_of_def string_defs)

subsection \<open>C3: the normalized string\<close>

text \<open>
  Claim C3 says that for every assistant text containing the delimiter the emitted string
  is the command, the canonical delimiter and the comment half with every occurrence of
  the marker removed. The comment half is the text after the first delimiter, and the
  source loses part of it where that text holds the delimiter again, by the slip of C1
  (\<open>split\<close> without a limit, then \<open>[1]\<close>): for
  \<open>ls # list # all * vity generated command\<close> the text before the first delimiter is
  \<open>ls\<close>, the text after it without the marker is \<open>list # all\<close>, so the string to emit
  is \<open>ls # list # all\<close>, and the source emits \<open>ls # list\<close>.
\<close>

theorem later_delimiters_dropped_from_comment:
  "py_contains delimiter ''ls # list # all * vity generated command''
   \<and> find_first delimiter ''ls # list # all * vity generated command''
       = Some (''ls'', ''list # all * vity generated command'')
   \<and> ''ls'' @ '' # '' @ py_replace marker [] ''list # all * vity generated command''
       = ''ls # list # all''
   \<and> cmd_string_of ''ls # list # all * vity generated command'' = Inr ''ls # list''"
  by (simp add: cmd_string_of_def string_defs)

text \<open>
  Where the slip does not bite, the source does what C3 says: when the assistant text is
  \<open>a # b\<close>, the delimiter shown being its first occurrence (none starts inside \<open>a\<close>
  followed by \<open>" #"\<close>) and \<open>b\<close> holding no further delimiter, the normalized string is
  \<open>a\<close>, the canonical delimiter and \<open>b\<close> with every occurrence of the marker removed;
  the lines printed are \<open>Command: \<close> and \<open>__VITY_CMD__:\<close> followed by that string, and
  the same string goes to the shell history file.
\<close>

theorem single_delimiter_normalized:
  assumes "message_text msg = Inr (PyStr (a @ delimiter @ b))"
    and "\<not> py_contains delimiter (a @ '' #'')"
    and "\<not> py_contains delimiter b"
  shows "cmd_string (PyStr (a @ delimiter @ b)) = Inr (PyStr (a @ '' # '' @ py_replace marker [] b))
    \<and> emit_command E msg =
        bind_run ([Print (''Command: '' @ a @ '' # '' @ py_replace marker [] b),
                   Print (''__VITY_CMD__:'' @ a @ '' # '' @ py_replace marker [] b)], Inr ())
          (\<lambda>_. append_history E (a @ '' # '' @ py_replace marker [] b))"
  using emit_command_text [OF assms(1) cmd_string_of_single [OF assms(2,3)], of E]
    cmd_string_PyStr [OF cmd_string_of_single [OF assms(2,3)]]
  by simp

text \<open>
  The scenario of the specification: the assistant text
  \<open>ls -la # lists all files * vity generated command\<close> gives the printed line
  \<open>Command: ls -la # lists all files\<close> and the sentinel line
  \<open>__VITY_CMD__:ls -la # lists all files\<close>.
\<close>

theorem single_delimiter_normalized_witness:
  "message_text example_assistant
     = Inr (PyStr (''ls -la'' @ delimiter @ ''lists all files * vity generated command''))
   \<and> \<not> py_contains delimiter (''ls -la'' @ '' #'')
   \<and> \<not> py_contains delimiter ''lists all files * vity generated command''
   \<and> emit_command example_env example_assistant =
        ([Print ''Command: ls -la # lists all files'',
          Print ''__VITY_CMD__:ls -la # lists all files'',
          Appended (Home ''.zsh_history'') ('': 1730000000:0;ls -la # lists all files'' @ [CHR 0x0A])],
         Inr ())"
proof -
  have h1: "message_text example_assistant
     = Inr (PyStr (''ls -la'' @ delimiter @ ''lists all files * vity generated command''))"
    by (simp add: run_defs string_defs example_defs)
  have h2: "\<not> py_contains delimiter (''ls -la'' @ '' #'')"
    by (simp add: string_defs)
  have h3: "\<not> py_contains delimiter ''lists all files * vity generated command''"
    by (simp add: string_defs)
  have r: "py_replace marker [] ''lists all files * vity generated command'' = ''lists all files''"
    by (simp add: string_defs)
  show ?thesis
    using h1 h2 h3 single_delimiter_normalized [OF h1 h2 h3, of example_env]
    by (simp add: r bind_run_def append_history_def shell_history_file_def shell_history_line_def
        shell_of_def string_defs example_env_def)
qed

subsection \<open>The history-file argument is read by the first step only\<close>

lemma load_chat_history_ignores_history_file:
  "load_chat_history E (A\<lparr>history_file := x\<rparr>) = load_chat_history E A"
  by (simp add: load_chat_history_def)

lemma generate_ignores_history_file:
  "generate E (A\<lparr>history_file := x\<rparr>) th ch = generate E A th ch"
  by (simp add: generate_def user_input_of_def split: mode.splits)

lemma emit_ignores_history_file:
  "emit E (A\<lparr>history_file := x\<rparr>) m = emit E A m"
  by (simp add: emit_def split: option.splits)

lemma save_chat_ignores_history_file:
  "save_chat E (A\<lparr>history_file := x\<rparr>) h = save_chat E A h"
  by (simp add: save_chat_def)

lemma handled_ignores_history_file:
  "handled E (A\<lparr>history_file := x\<rparr>) th ch = handled E A th ch"
  by (simp add: handled_def body_def generate_ignores_history_file emit_ignores_history_file
      save_chat_ignores_history_file)

subsection \<open>C7: a terminal-history file that does not exist\<close>

text \<open>
  Claim C7: when the terminal-history path is given and the file does not exist, a
  warning is printed, the terminal history is the empty string and the invocation goes
  on as usual. The warning is the line of line 177: the warning sign (U+26A0 U+FE0F, six
  bytes in UTF-8), two spaces, and \<open>Warning: history file '{path}' not found\<close>. The run
  is that line followed by exactly the run of the same invocation without a history file.
\<close>

theorem missing_history_file_proceeds:
  assumes "history_file A = Some p" and "p \<noteq> []"
    and "read_text E p = Inl e" and "class_of e = FileNotFoundError"
  shows "history_warning p =
           [CHR 0xE2, CHR 0x9A, CHR 0xA0, CHR 0xEF, CHR 0xB8, CHR 0x8F]
             @ ''  Warning: history file '' @ [CHR 0x27] @ p @ [CHR 0x27] @ '' not found''
    \<and> load_terminal_history E A = ([Print (history_warning p)], Inr [])
    \<and> main E A = (Print (history_warning p) # fst (main E (A\<lparr>history_file := None\<rparr>)),
                  snd (main E (A\<lparr>history_file := None\<rparr>)))"
proof -
  have w: "history_warning p =
           [CHR 0xE2, CHR 0x9A, CHR 0xA0, CHR 0xEF, CHR 0xB8, CHR 0x8F]
             @ ''  Warning: history file '' @ [CHR 0x27] @ p @ [CHR 0x27] @ '' not found''"
    by (simp add: history_warning_def warning_sign_def squote_def)
  have l: "load_terminal_history E A = ([Print (history_warning p)], Inr [])"
    using assms by (simp add: load_terminal_history_def)
  have l': "load_terminal_history E (A\<lparr>history_file := None\<rparr>) = ([], Inr [])"
    by (simp add: load_terminal_history_def)
  have "main E A = (Print (history_warning p) # fst (main E (A\<lparr>history_file := None\<rparr>)),
                  snd (main E (A\<lparr>history_file := None\<rparr>)))"
    using l l'
    by (simp add: main_def load_chat_history_ignores_history_file handled_ignores_history_file
        split: prod.splits sum.splits)
  with w l show ?thesis by blast
qed

text \<open>
  The example invocation has no \<open>session.log\<close>: the warning comes first, the
  collaborator is called with the empty terminal history, and the command is emitted and
  saved.
\<close>

theorem missing_history_file_proceeds_witness:
  "history_file example_args = Some ''session.log''
   \<and> read_text example_env ''session.log'' = Inl no_such_file
   \<and> class_of no_such_file = FileNotFoundError
   \<and> main example_env example_args =
       ([Print ([CHR 0xE2, CHR 0x9A, CHR 0xA0, CHR 0xEF, CHR 0xB8, CHR 0x8F]
                  @ ''  Warning: history file '' @ [CHR 0x27] @ ''session.log'' @ [CHR 0x27]
                  @ '' not found''),
         Print thinking,
         Generate Do [] (PyList []) ''list files'' ''openai'',
         Print ''Command: ls -la # lists all files'',
         Print ''__VITY_CMD__:ls -la # lists all files'',
         Appended (Home ''.zsh_history'') ('': 1730000000:0;ls -la # lists all files'' @ [CHR 0x0A]),
         Truncated (Path ''chat.json''),
         Dumped (Path ''chat.json'') [example_user_stripped, example_assistant]],
        Returned)"
proof -
  have h1: "history_file example_args = Some ''session.log''"
    by (simp add: example_args_def)
  have h2: "''session.log'' \<noteq> []" by simp
  have h3: "read_text example_env ''session.log'' = Inl no_such_file"
    by (simp add: example_env_def)
  have h4: "class_of no_such_file = FileNotFoundError"
    by (simp add: no_such_file_def)
  have r: "main example_env (example_args\<lparr>history_file := None\<rparr>) =
       ([Print thinking,
         Generate Do [] (PyList []) ''list files'' ''openai'',
         Print ''Command: ls -la # lists all files'',
         Print ''__VITY_CMD__:ls -la # lists all files'',
         Appended (Home ''.zsh_history'') ('': 1730000000:0;ls -la # lists all files'' @ [CHR 0x0A]),
         Truncated (Path ''chat.json''),
         Dumped (Path ''chat.json'') [example_user_stripped, example_assistant]],
        Returned)"
    by (simp add: run_defs string_defs example_defs)
  from missing_history_file_proceeds [OF h1 h2 h3 h4]
  have "main example_env example_args =
      (Print ([CHR 0xE2, CHR 0x9A, CHR 0xA0, CHR 0xEF, CHR 0xB8, CHR 0x8F]
                @ ''  Warning: history file '' @ [CHR 0x27] @ ''session.log'' @ [CHR 0x27]
                @ '' not found'')
         # fst (main example_env (example_args\<lparr>history_file := None\<rparr>)),
       snd (main example_env (example_args\<lparr>history_file := None\<rparr>)))"
    by simp
  with h1 h3 h4 show ?thesis
    by (simp add: r)
qed

subsection \<open>C4: loading the chat file fails softly\<close>

text \<open>
  Claim C4: when the chat-file path is given and the file does not exist
  (\<open>FileNotFoundError\<close>), the chat history is the empty list and nothing is printed for
  it; when its content is not JSON (\<open>json.JSONDecodeError\<close>), the chat history is the
  empty list and a warning is printed, the line of line 189: the warning sign (U+26A0
  U+FE0F, six bytes in UTF-8), two spaces, and
  \<open>Warning: chat file '{path}' contains invalid JSON, starting fresh\<close>. In both cases no exception leaves the step: after
  the events of the terminal-history step (which went through), the invocation prints
  the thinking line and runs the handled region on the empty history.
\<close>

theorem missing_or_malformed_chat_file:
  assumes "chat_file A = Some p" and "p \<noteq> []"
    and "json_load E p = Inl e"
    and "class_of e = FileNotFoundError \<or> class_of e = JSONDecodeError"
    and "load_terminal_history E A = (evs1, Inr th)"
  shows "chat_warning p =
           [CHR 0xE2, CHR 0x9A, CHR 0xA0, CHR 0xEF, CHR 0xB8, CHR 0x8F]
             @ ''  Warning: chat file '' @ [CHR 0x27] @ p @ [CHR 0x27]
             @ '' contains invalid JSON, starting fresh''
    \<and> load_chat_history E A =
           (if class_of e = JSONDecodeError then [Print (chat_warning p)] else [], Inr (PyList []))
    \<and> main E A =
         (evs1 @ (if class_of e = JSONDecodeError then [Print (chat_warning p)] else [])
            @ Print thinking # fst (handled E A th (PyList [])),
          snd (handled E A th (PyList [])))"
proof -
  have w: "chat_warning p =
           [CHR 0xE2, CHR 0x9A, CHR 0xA0, CHR 0xEF, CHR 0xB8, CHR 0x8F]
             @ ''  Warning: chat file '' @ [CHR 0x27] @ p @ [CHR 0x27]
             @ '' contains invalid JSON, starting fresh''"
    by (simp add: chat_warning_def warning_sign_def squote_def)
  have l: "load_chat_history E A =
           (if class_of e = JSONDecodeError then [Print (chat_warning p)] else [], Inr (PyList []))"
    using assms(1-4) by (auto simp: load_chat_history_def)
  have "main E A =
         (evs1 @ (if class_of e = JSONDecodeError then [Print (chat_warning p)] else [])
            @ Print thinking # fst (handled E A th (PyList [])),
          snd (handled E A th (PyList [])))"
    using assms(5) by (simp add: main_def l split: prod.splits)
  with w l show ?thesis by blast
qed

text \<open>
  Both cases on the example invocation: no \<open>chat.json\<close>, and a \<open>chat.json\<close> that is
  not JSON.
\<close>

theorem missing_or_malformed_chat_file_witness:
  "json_load example_env ''chat.json'' = Inl no_such_file
   \<and> load_chat_history example_env example_args = ([], Inr (PyList []))
   \<and> json_load (example_env\<lparr>json_load := \<lambda>p. Inl malformed_json\<rparr>) ''chat.json'' = Inl malformed_json
   \<and> load_chat_history (example_env\<lparr>json_load := \<lambda>p. Inl malformed_json\<rparr>) example_args
       = ([Print ([CHR 0xE2, CHR 0x9A, CHR 0xA0, CHR 0xEF, CHR 0xB8, CHR 0x8F]
                    @ ''  Warning: chat file '' @ [CHR 0x27] @ ''chat.json'' @ [CHR 0x27]
                    @ '' contains invalid JSON, starting fresh'')], Inr (PyList []))
   \<and> fst (main (example_env\<lparr>json_load := \<lambda>p. Inl malformed_json\<rparr>) example_args) =
       [Print (history_warning ''session.log''),
        Print ([CHR 0xE2, CHR 0x9A, CHR 0xA0, CHR 0xEF, CHR 0xB8, CHR 0x8F]
                 @ ''  Warning: chat file '' @ [CHR 0x27] @ ''chat.json'' @ [CHR 0x27]
                 @ '' contains invalid JSON, starting fresh''),
        Print thinking,
         Generate Do [] (PyList []) ''list files'' ''openai'',
         Print ''Command: ls -la # lists all files'',
         Print ''__VITY_CMD__:ls -la # lists all files'',
         Appended (Home ''.zsh_history'') ('': 1730000000:0;ls -la # lists all files'' @ [CHR 0x0A]),
         Truncated (Path ''chat.json''),
         Dumped (Path ''chat.json'') [example_user_stripped, example_assistant]]
   \<and> snd (main (example_env\<lparr>json_load := \<lambda>p. Inl malformed_json\<rparr>) example_args) = Returned"
proof -
  let ?E = "example_env\<lparr>json_load := \<lambda>p. Inl malformed_json\<rparr>"
  have c: "chat_file example_args = Some ''chat.json''" by (simp add: example_args_def)
  have n: "''chat.json'' \<noteq> []" by simp
  have a1: "json_load example_env ''chat.json'' = Inl no_such_file"
    by (simp add: example_env_def)
  have a2: "class_of no_such_file = FileNotFoundError \<or> class_of no_such_file = JSONDecodeError"
    by (simp add: no_such_file_def)
  have b1: "json_load ?E ''chat.json'' = Inl malformed_json" by simp
  have b2: "class_of malformed_json = FileNotFoundError \<or> class_of malformed_json = JSONDecodeError"
    by (simp add: malformed_json_def)
  have c1: "class_of no_such_file = FileNotFoundError" by (simp add: no_such_file_def)
  have c2: "class_of malformed_json = JSONDecodeError" by (simp add: malformed_json_def)
  have t1: "load_terminal_history example_env example_args
      = ([Print (history_warning ''session.log'')], Inr [])"
    by (simp add: load_terminal_history_def example_defs)
  have t2: "load_terminal_history ?E example_args
      = ([Print (history_warning ''session.log'')], Inr [])"
    by (simp add: load_terminal_history_def example_defs)
  have h: "handled ?E example_args [] (PyList []) =
       ([Generate Do [] (PyList []) ''list files'' ''openai'',
         Print ''Command: ls -la # lists all files'',
         Print ''__VITY_CMD__:ls -la # lists all files'',
         Appended (Home ''.zsh_history'') ('': 1730000000:0;ls -la # lists all files'' @ [CHR 0x0A]),
         Truncated (Path ''chat.json''),
         Dumped (Path ''chat.json'') [example_user_stripped, example_assistant]],
        Returned)"
    by (simp add: run_defs string_defs example_defs)
  show ?thesis
    using a1 b1 missing_or_malformed_chat_file [OF c n a1 a2 t1]
      missing_or_malformed_chat_file [OF c n b1 b2 t2]
    by (simp add: h c1 c2)
qed

subsection \<open>Where an exception can leave the branch uncaught\<close>

text \<open>
  The two loading steps raise exactly the exceptions of their read that the local
  handlers do not name, and \<open>handled\<close> never ends with an exception.
\<close>

lemma load_terminal_history_raises:
  "snd (load_terminal_history E A) = Inl x \<longleftrightarrow>
     (\<exists>p. history_file A = Some p \<and> p \<noteq> [] \<and> read_text E p = Inl x
          \<and> class_of x \<noteq> FileNotFoundError)"
  by (auto simp: load_terminal_history_def split: option.splits sum.splits)

lemma load_chat_history_raises:
  "snd (load_chat_history E A) = Inl x \<longleftrightarrow>
     (\<exists>p. chat_file A = Some p \<and> p \<noteq> [] \<and> json_load E p = Inl x
          \<and> class_of x \<noteq> FileNotFoundError \<and> class_of x \<noteq> JSONDecodeError)"
  by (auto simp: load_chat_history_def split: option.splits sum.splits)

lemma handled_not_uncaught: "handled E A th ch \<noteq> (evs, Uncaught x)"
  by (simp add: handled_def split: prod.splits sum.splits)

lemma main_uncaught:
  "snd (main E A) = Uncaught x \<longleftrightarrow>
     snd (load_terminal_history E A) = Inl x
     \<or> ((\<exists>th. snd (load_terminal_history E A) = Inr th) \<and> snd (load_chat_history E A) = Inl x)"
  by (auto simp: main_def handled_not_uncaught split: prod.splits sum.splits)

subsection \<open>The events of each step\<close>

text \<open>
  Only \<open>save_chat\<close> touches the chat file; when it raises, either \<open>open\<close> failed and
  nothing happened, or the file was truncated and \<open>json.dump\<close> failed.
\<close>

lemma append_history_events:
  "append_history E c = (evs, r) \<Longrightarrow> ev \<in> set evs \<Longrightarrow> \<not> writes_chat_file ev"
  by (auto simp: append_history_def split: option.splits if_splits)

lemma emit_command_events:
  "emit_command E msg = (evs, r) \<Longrightarrow> ev \<in> set evs \<Longrightarrow> \<not> writes_chat_file ev"
  by (auto simp: emit_command_def bind_run_def split: sum.splits prod.splits
      dest: append_history_events)

lemma emit_chat_events:
  "emit_chat E msg = (evs, r) \<Longrightarrow> ev \<in> set evs \<Longrightarrow> \<not> writes_chat_file ev"
  by (auto simp: emit_chat_def bind_run_def split: sum.splits prod.splits)

lemma emit_events:
  "ev \<in> set (fst (emit E A m)) \<Longrightarrow> \<not> writes_chat_file ev"
proof -
  assume a: "ev \<in> set (fst (emit E A m))"
  obtain evs r where e: "emit E A m = (evs, r)" by (cases "emit E A m")
  with a have "ev \<in> set evs" by simp
  with e show ?thesis
    by (auto simp: emit_def split: option.splits if_splits mode.splits
        dest: emit_command_events emit_chat_events)
qed



text \<open>The body, step by step.\<close>

lemma body_steps:
  "body E A th ch =
     (case snd (generate E A th ch) of
        Inl e \<Rightarrow> (fst (generate E A th ch), Inl e)
      | Inr h \<Rightarrow>
          (case strip_last_user (remove_terminal_history_tags E) h of
             Inl e \<Rightarrow> (fst (generate E A th ch), Inl e)
           | Inr h' \<Rightarrow>
               (case last_assistant h' of
                  Inl e \<Rightarrow> (fst (generate E A th ch), Inl e)
                | Inr m \<Rightarrow>
                    (case snd (emit E A m) of
                       Inl e \<Rightarrow> (fst (generate E A th ch) @ fst (emit E A m), Inl e)
                     | Inr u \<Rightarrow>
                         (fst (generate E A th ch) @ fst (emit E A m) @ fst (save_chat E A h'),
                          snd (save_chat E A h'))))))"
  by (simp add: body_def bind_run_def split: prod.splits sum.splits)

lemma generate_events:
  "fst (generate E A th ch) = [Generate (command A) th ch (user_input_of A) (provider_of E)]"
  by (simp add: generate_def)





subsection \<open>C10: the chat file of an invocation that ends in an error\<close>




subsection \<open>Stripping does not change which message is the last assistant message\<close>






subsection \<open>The run of the body when an assistant message is found\<close>

text \<open>
  A message the second loop returns is a dictionary with the key \<open>"role"\<close>, so the test
  \<open>if last_assistant_msg:\<close> succeeds for it.
\<close>

lemma find_assistant_truthy:
  "find_assistant xs = Inr (Some m) \<Longrightarrow> truthy m"
proof (induction xs)
  case Nil
  then show ?case by simp
next
  case (Cons x xs)
  show ?case
  proof (cases "py_get x ''role'' PyNone = Inr (PyStr ''assistant'')")
    case True
    with Cons.prems have "m = x" by simp
    with True show ?thesis by (cases x) (auto split: option.splits)
  next
    case False
    with Cons show ?thesis by (auto split: sum.splits if_splits)
  qed
qed

lemma last_assistant_truthy:
  "last_assistant h = Inr (Some m) \<Longrightarrow> truthy m"
  unfolding last_assistant_def by (rule find_assistant_truthy)

lemma append_history_prints:
  "Print x \<notin> set (fst (append_history E c))"
  by (simp add: append_history_def split: option.splits)

lemma save_chat_prints:
  "Print x \<notin> set (fst (save_chat E A h))"
  by (simp add: save_chat_def split: option.splits)

lemma body_do:
  assumes "command A = Do"
    and "snd (generate E A th ch) = Inr h"
    and "strip_last_user (remove_terminal_history_tags E) h = Inr h'"
    and "last_assistant h' = Inr (Some msg)"
    and "message_text msg = Inr (PyStr s)"
    and "cmd_string_of s = Inr n"
  shows "body E A th ch =
           bind_run ([Generate Do th ch (user_input_of A) (provider_of E),
                      Print (''Command: '' @ n), Print (''__VITY_CMD__:'' @ n)], Inr ())
             (\<lambda>_. bind_run (append_history E n) (\<lambda>_. save_chat E A h'))"
proof -
  have t: "truthy msg" using assms(4) by (rule last_assistant_truthy)
  have "emit E A (Some msg)
      = bind_run ([Print (''Command: '' @ n), Print (''__VITY_CMD__:'' @ n)], Inr ())
          (\<lambda>_. append_history E n)"
    using t assms(1) emit_command_text [OF assms(5,6)] by (simp add: emit_def)
  with assms(1-4) show ?thesis
    by (simp add: body_steps generate_events bind_run_def split: prod.splits sum.splits)
qed

lemma body_chat:
  assumes "command A = Chat"
    and "snd (generate E A th ch) = Inr h"
    and "strip_last_user (remove_terminal_history_tags E) h = Inr h'"
    and "last_assistant h' = Inr (Some msg)"
    and "message_text msg = Inr (PyStr s)"
  shows "body E A th ch =
           bind_run ([Generate Chat th ch (user_input_of A) (provider_of E), Print s], Inr ())
             (\<lambda>_. save_chat E A h')"
proof -
  have t: "truthy msg" using assms(4) by (rule last_assistant_truthy)
  have "emit E A (Some msg) = ([Print s], Inr ())"
    using t assms(1,5) by (simp add: emit_def emit_chat_def bind_run_def format_value_def)
  with assms(1-4) show ?thesis
    by (simp add: body_steps generate_events bind_run_def split: prod.splits sum.splits)
qed

subsection \<open>C5: what is printed for the assistant message\<close>

text \<open>
  Claim C5: when the invocation yields an assistant message (the collaborator returned,
  the stripping went through, the last assistant message has a string as the text of its
  first content part), then in do mode the body prints \<open>Command: \<close> followed by the
  normalized string and, as the very next line, \<open>__VITY_CMD__:\<close> followed by the same
  string, before it goes on to the history append and the save; in chat mode it prints
  the assistant text itself, unparsed, and goes on to the save. Neither the append nor
  the save prints anything, so chat mode prints no sentinel line.
\<close>

theorem assistant_message_output:
  assumes "snd (generate E A th ch) = Inr h"
    and "strip_last_user (remove_terminal_history_tags E) h = Inr h'"
    and "last_assistant h' = Inr (Some msg)"
    and "message_text msg = Inr (PyStr s)"
  shows "(command A = Do \<longrightarrow>
           (\<exists>n. cmd_string_of s = Inr n
              \<and> body E A th ch =
                  bind_run ([Generate Do th ch (user_input_of A) (provider_of E),
                             Print (''Command: '' @ n), Print (''__VITY_CMD__:'' @ n)], Inr ())
                    (\<lambda>_. bind_run (append_history E n) (\<lambda>_. save_chat E A h'))
              \<and> (\<forall>x. Print x \<notin> set (fst (append_history E n)))))
    \<and> (command A = Chat \<longrightarrow>
           body E A th ch =
             bind_run ([Generate Chat th ch (user_input_of A) (provider_of E), Print s], Inr ())
               (\<lambda>_. save_chat E A h'))
    \<and> (\<forall>x. Print x \<notin> set (fst (save_chat E A h')))"
proof (intro conjI impI)
  assume d: "command A = Do"
  obtain n where n: "cmd_string_of s = Inr n"
    using cmd_string_of_returns by blast
  from body_do [OF d assms n] n append_history_prints
  show "\<exists>n. cmd_string_of s = Inr n
              \<and> body E A th ch =
                  bind_run ([Generate Do th ch (user_input_of A) (provider_of E),
                             Print (''Command: '' @ n), Print (''__VITY_CMD__:'' @ n)], Inr ())
                    (\<lambda>_. bind_run (append_history E n) (\<lambda>_. save_chat E A h'))
              \<and> (\<forall>x. Print x \<notin> set (fst (append_history E n)))"
    by blast
next
  assume "command A = Chat"
  then show "body E A th ch =
             bind_run ([Generate Chat th ch (user_input_of A) (provider_of E), Print s], Inr ())
               (\<lambda>_. save_chat E A h')"
    using assms by (rule body_chat)
next
  show "\<forall>x. Print x \<notin> set (fst (save_chat E A h'))"
    using save_chat_prints by blast
qed

text \<open>
  Both scenarios of the specification: the do-mode answer
  \<open>ls -la # lists all files * vity generated command\<close> and the chat-mode answer
  \<open>Use grep -r to search recursively.\<close>
\<close>

theorem assistant_message_output_witness:
  "message_text example_assistant
      = Inr (PyStr ''ls -la # lists all files * vity generated command'')
   \<and> body example_env example_args [] (PyList [])
      = ([Generate Do [] (PyList []) ''list files'' ''openai'',
          Print ''Command: ls -la # lists all files'',
          Print ''__VITY_CMD__:ls -la # lists all files'',
          Appended (Home ''.zsh_history'') ('': 1730000000:0;ls -la # lists all files'' @ [CHR 0x0A]),
          Truncated (Path ''chat.json''),
          Dumped (Path ''chat.json'') [example_user_stripped, example_assistant]], Inr ())
   \<and> message_text example_chat_assistant = Inr (PyStr ''Use grep -r to search recursively.'')
   \<and> body example_env (example_args\<lparr>command := Chat\<rparr>) [] (PyList [])
      = ([Generate Chat [] (PyList []) ''list files'' ''openai'',
          Print ''Use grep -r to search recursively.'',
          Truncated (Path ''chat.json''),
          Dumped (Path ''chat.json'') [example_user_stripped, example_chat_assistant]], Inr ())"
proof -
  let ?C = "example_args\<lparr>command := Chat\<rparr>"
  have g1: "snd (generate example_env example_args [] (PyList []))
      = Inr [example_user, example_assistant]"
    by (simp add: generate_def example_env_def example_args_def)
  have s1: "strip_last_user (remove_terminal_history_tags example_env) [example_user, example_assistant]
      = Inr [example_user_stripped, example_assistant]"
    by (simp add: strip_last_user_def strip_message_def string_defs example_defs)
  have l1: "last_assistant [example_user_stripped, example_assistant] = Inr (Some example_assistant)"
    by (simp add: last_assistant_def example_defs)
  have m1: "message_text example_assistant
      = Inr (PyStr ''ls -la # lists all files * vity generated command'')"
    by (simp add: message_text_def example_assistant_def)
  have g2: "snd (generate example_env ?C [] (PyList []))
      = Inr [example_user, example_chat_assistant]"
    by (simp add: generate_def example_env_def example_args_def)
  have s2: "strip_last_user (remove_terminal_history_tags example_env)
        [example_user, example_chat_assistant]
      = Inr [example_user_stripped, example_chat_assistant]"
    by (simp add: strip_last_user_def strip_message_def string_defs example_defs)
  have l2: "last_assistant [example_user_stripped, example_chat_assistant]
      = Inr (Some example_chat_assistant)"
    by (simp add: last_assistant_def example_defs)
  have m2: "message_text example_chat_assistant = Inr (PyStr ''Use grep -r to search recursively.'')"
    by (simp add: message_text_def example_chat_assistant_def)
  have c: "cmd_string_of ''ls -la # lists all files * vity generated command''
      = Inr ''ls -la # lists all files''"
    by (simp add: cmd_string_of_def string_defs)
  have a: "append_history example_env ''ls -la # lists all files''
      = ([Appended (Home ''.zsh_history'') ('': 1730000000:0;ls -la # lists all files'' @ [CHR 0x0A])],
         Inr ())"
    by (simp add: append_history_def shell_history_file_def shell_history_line_def shell_of_def
        string_defs example_env_def)
  have v: "save_chat example_env A' h
      = (if given (chat_file A') then [Truncated (Path (the (chat_file A'))), Dumped (Path (the (chat_file A'))) h] else [],
         Inr ())" for A' h
    by (auto simp: save_chat_def example_env_def split: option.splits)
  have u: "user_input_of example_args = ''list files''" "user_input_of ?C = ''list files''"
    by (simp_all add: user_input_of_def example_args_def)
  have p: "provider_of example_env = ''openai''"
    by (simp add: provider_of_def string_defs example_env_def)
  have d: "command example_args = Do" "command ?C = Chat"
    "chat_file example_args = Some ''chat.json''" "chat_file ?C = Some ''chat.json''"
    by (simp_all add: example_args_def)
  show ?thesis
    using assistant_message_output [OF g1 s1 l1 m1] assistant_message_output [OF g2 s2 l2 m2]
    by (simp add: m1 m2 c a v u p d bind_run_def)
qed

subsection \<open>C8: the append to the shell history file\<close>




subsection \<open>The effect of the stripping loop\<close>

text \<open>
  A message that \<open>strip_message\<close> accepts is a dictionary whose \<open>"content"\<close> is a list
  starting with a dictionary that has a \<open>"text"\<close>; the result is the same dictionary with
  that one value replaced. The loop replaces the first user message it meets from the
  end, and no other element of the list.
\<close>

lemma getitem_key_Inr:
  "getitem_key m k = Inr v \<Longrightarrow> \<exists>kvs. m = PyDict kvs \<and> map_of kvs k = Some v"
  by (cases m) (auto split: option.splits)

lemma strip_message_shape:
  assumes "strip_message rt m = Inr m'"
  shows "\<exists>kvs pk ps t t'.
           m = PyDict kvs \<and> map_of kvs ''content'' = Some (PyList (PyDict pk # ps))
         \<and> map_of pk ''text'' = Some t \<and> rt t = Inr t'
         \<and> m' = PyDict (AList.update ''content''
                          (PyList (PyDict (AList.update ''text'' t' pk) # ps)) kvs)"
proof -
  from assms obtain content where c: "getitem_key m ''content'' = Inr content"
    by (auto simp: strip_message_def split: sum.splits)
  then obtain kvs where m: "m = PyDict kvs" and kc: "map_of kvs ''content'' = Some content"
    using getitem_key_Inr by blast
  from assms c obtain part where p: "getitem_0 content = Inr part"
    by (auto simp: strip_message_def split: sum.splits)
  from assms c p obtain t where t: "getitem_key part ''text'' = Inr t"
    by (auto simp: strip_message_def split: sum.splits)
  then obtain pk where part: "part = PyDict pk" and kt: "map_of pk ''text'' = Some t"
    using getitem_key_Inr by blast
  from p part obtain ps where content: "content = PyList (PyDict pk # ps)"
    by (cases content rule: getitem_0.cases) auto
  from assms c p t obtain t' where t': "rt t = Inr t'"
    and s: "set_first_text m t' = Inr m'"
    by (auto simp: strip_message_def split: sum.splits)
  from s m kc content
  have "m' = PyDict (AList.update ''content''
                          (PyList (PyDict (AList.update ''text'' t' pk) # ps)) kvs)"
    by simp
  with m kc content kt t' show ?thesis by blast
qed

lemma strip_loop_frame:
  assumes "strip_loop rt xs = Inr ys" and "\<exists>m\<in>set xs. is_user m"
  shows "\<exists>k<length xs. is_user (xs ! k) \<and> (\<forall>j<k. \<not> is_user (xs ! j))
           \<and> strip_message rt (xs ! k) = Inr (ys ! k) \<and> ys = xs[k := ys ! k]"
  using assms
proof (induction xs arbitrary: ys)
  case Nil
  then show ?case by simp
next
  case (Cons m rest)
  from Cons.prems(1) obtain r where r: "getitem_key m ''role'' = Inr r"
    by (auto split: sum.splits)
  show ?case
  proof (cases "r = PyStr ''user''")
    case True
    with Cons.prems(1) r obtain m' where m': "strip_message rt m = Inr m'" "ys = m' # rest"
      by (auto split: sum.splits)
    from True r have "is_user m" by (simp add: is_user_def)
    with m' have "0 < length (m # rest) \<and> is_user ((m # rest) ! 0)
        \<and> (\<forall>j<0. \<not> is_user ((m # rest) ! j))
        \<and> strip_message rt ((m # rest) ! 0) = Inr (ys ! 0) \<and> ys = (m # rest)[0 := ys ! 0]"
      by simp
    then show ?thesis by blast
  next
    case False
    with r have nu: "\<not> is_user m" by (simp add: is_user_def)
    from False Cons.prems(1) r obtain rest' where
      rest': "strip_loop rt rest = Inr rest'" "ys = m # rest'"
      by (auto split: sum.splits)
    from nu Cons.prems(2) have "\<exists>m\<in>set rest. is_user m" by simp
    from Cons.IH [OF rest'(1) this] obtain k where k: "k < length rest" "is_user (rest ! k)"
      "\<forall>j<k. \<not> is_user (rest ! j)" "strip_message rt (rest ! k) = Inr (rest' ! k)"
      "rest' = rest[k := rest' ! k]"
      by blast
    have "\<forall>j<Suc k. \<not> is_user ((m # rest) ! j)"
      using nu k(3) by (auto simp: nth_Cons split: nat.splits)
    moreover have "ys = (m # rest)[Suc k := ys ! Suc k]"
      using rest'(2) k(5) by simp
    ultimately have "Suc k < length (m # rest) \<and> is_user ((m # rest) ! Suc k)
        \<and> (\<forall>j<Suc k. \<not> is_user ((m # rest) ! j))
        \<and> strip_message rt ((m # rest) ! Suc k) = Inr (ys ! Suc k)
        \<and> ys = (m # rest)[Suc k := ys ! Suc k]"
      using k rest'(2) by simp
    then show ?thesis by blast
  qed
qed

lemma strip_last_user_frame:
  assumes "strip_last_user rt h = Inr h'" and "\<exists>m\<in>set h. is_user m"
  shows "\<exists>i<length h. is_user (h ! i) \<and> (\<forall>j. i < j \<and> j < length h \<longrightarrow> \<not> is_user (h ! j))
           \<and> strip_message rt (h ! i) = Inr (h' ! i) \<and> h' = h[i := h' ! i]"
proof -
  from assms(1) obtain ys where ys: "strip_loop rt (rev h) = Inr ys" and h': "h' = rev ys"
    by (auto simp: strip_last_user_def split: sum.splits)
  from assms(2) have "\<exists>m\<in>set (rev h). is_user m" by simp
  from strip_loop_frame [OF ys this] obtain k where k: "k < length h" "is_user (rev h ! k)"
    "\<forall>j<k. \<not> is_user (rev h ! j)" "strip_message rt (rev h ! k) = Inr (ys ! k)"
    "ys = (rev h)[k := ys ! k]"
    by auto
  let ?i = "length h - Suc k"
  have len: "length ys = length h" using k(5) by (metis length_list_update length_rev)
  have i: "?i < length h" using k(1) by simp
  have hk: "rev h ! k = h ! ?i" using k(1) by (simp add: rev_nth)
  have yk: "ys ! k = h' ! ?i" using k(1) len h' by (simp add: rev_nth)
  have later: "\<forall>j. ?i < j \<and> j < length h \<longrightarrow> \<not> is_user (h ! j)"
  proof (intro allI impI)
    fix j assume j: "?i < j \<and> j < length h"
    then have "length h - Suc j < k" by arith
    with k(3) have "\<not> is_user (rev h ! (length h - Suc j))" by simp
    moreover have "rev h ! (length h - Suc j) = h ! j"
    proof -
      have e: "length h - Suc (length h - Suc j) = j" using j by arith
      have "length h - Suc j < length h" using j by arith
      from rev_nth [OF this] show ?thesis unfolding e .
    qed
    ultimately show "\<not> is_user (h ! j)" by simp
  qed
  have "h' = rev ((rev h)[k := ys ! k])" using h' k(5) by simp
  also have "\<dots> = h[?i := ys ! k]" using k(1) by (simp add: rev_update)
  finally have upd: "h' = h[?i := h' ! ?i]" using yk by simp
  from i k(2,4) hk yk later upd show ?thesis by auto
qed


lemma save_chat_dumped:
  "Dumped p x \<in> set (fst (save_chat E A h)) \<Longrightarrow> x = h"
  by (auto simp: save_chat_def split: option.splits if_splits)

lemma body_dumped:
  assumes "snd (generate E A th ch) = Inr h"
    and "strip_last_user (remove_terminal_history_tags E) h = Inr h'"
    and "Dumped p x \<in> set (fst (body E A th ch))"
  shows "x = h'"
proof -
  have g: "Dumped p x \<notin> set (fst (generate E A th ch))"
    by (simp add: generate_events)
  have e: "Dumped p x \<notin> set (fst (emit E A m))" for m
    using emit_events [of "Dumped p x" E A m] by auto
  from assms(3) g e have "Dumped p x \<in> set (fst (save_chat E A h'))"
    by (auto simp: body_steps assms(1,2) split: sum.splits)
  then show ?thesis by (rule save_chat_dumped)
qed

subsection \<open>C6: the frame of the tag stripping\<close>

text \<open>
  Claim C6: of the history the collaborator returns, the stripping changes exactly one
  message, the most recent user message, and of that message only the text of its first
  content part; every other message, assistant messages and earlier user turns alike, is
  the same value afterwards, and this is the history that is persisted. Here \<open>h\<close> is the
  returned history, which holds a user message (the collaborator appends one), \<open>h'\<close>
  the history after the loop, and \<open>i\<close> the position of the last user message: \<open>h'\<close> is
  \<open>h\<close> with the message at \<open>i\<close> replaced by itself with \<open>content[0]["text"]\<close> set to
  the codec's result; any history \<open>json.dump\<close> writes in this invocation is \<open>h'\<close>.
\<close>

theorem strip_changes_last_user_text_only:
  assumes "snd (generate E A th ch) = Inr h"
    and "\<exists>m\<in>set h. is_user m"
    and "strip_last_user (remove_terminal_history_tags E) h = Inr h'"
  shows "(\<exists>i kvs pk ps t t'.
            i < length h \<and> is_user (h ! i)
          \<and> (\<forall>j. i < j \<and> j < length h \<longrightarrow> \<not> is_user (h ! j))
          \<and> h ! i = PyDict kvs
          \<and> map_of kvs ''content'' = Some (PyList (PyDict pk # ps))
          \<and> map_of pk ''text'' = Some t
          \<and> remove_terminal_history_tags E t = Inr t'
          \<and> h' = h[i := PyDict (AList.update ''content''
                             (PyList (PyDict (AList.update ''text'' t' pk) # ps)) kvs)]
          \<and> length h' = length h
          \<and> (\<forall>j<length h. j \<noteq> i \<longrightarrow> h' ! j = h ! j))
    \<and> (\<forall>p x. Dumped p x \<in> set (fst (body E A th ch)) \<longrightarrow> x = h')"
proof
  from strip_last_user_frame [OF assms(3,2)] obtain i where i: "i < length h" "is_user (h ! i)"
    "\<forall>j. i < j \<and> j < length h \<longrightarrow> \<not> is_user (h ! j)"
    "strip_message (remove_terminal_history_tags E) (h ! i) = Inr (h' ! i)"
    "h' = h[i := h' ! i]"
    by blast
  from strip_message_shape [OF i(4)] obtain kvs pk ps t t' where
    m: "h ! i = PyDict kvs" "map_of kvs ''content'' = Some (PyList (PyDict pk # ps))"
      "map_of pk ''text'' = Some t" "remove_terminal_history_tags E t = Inr t'"
      "h' ! i = PyDict (AList.update ''content''
                             (PyList (PyDict (AList.update ''text'' t' pk) # ps)) kvs)"
    by blast
  from i(5) m(5) have u: "h' = h[i := PyDict (AList.update ''content''
                             (PyList (PyDict (AList.update ''text'' t' pk) # ps)) kvs)]"
    by simp
  from i(5) have l: "length h' = length h"
    by (metis length_list_update)
  from i(5) have f: "\<forall>j<length h. j \<noteq> i \<longrightarrow> h' ! j = h ! j"
    by (metis nth_list_update_neq)
  from i(1-3) m(1-4) u l f
  show "\<exists>i kvs pk ps t t'.
            i < length h \<and> is_user (h ! i)
          \<and> (\<forall>j. i < j \<and> j < length h \<longrightarrow> \<not> is_user (h ! j))
          \<and> h ! i = PyDict kvs
          \<and> map_of kvs ''content'' = Some (PyList (PyDict pk # ps))
          \<and> map_of pk ''text'' = Some t
          \<and> remove_terminal_history_tags E t = Inr t'
          \<and> h' = h[i := PyDict (AList.update ''content''
                             (PyList (PyDict (AList.update ''text'' t' pk) # ps)) kvs)]
          \<and> length h' = length h
          \<and> (\<forall>j<length h. j \<noteq> i \<longrightarrow> h' ! j = h ! j)"
    by blast
next
  show "\<forall>p x. Dumped p x \<in> set (fst (body E A th ch)) \<longrightarrow> x = h'"
    using body_dumped [OF assms(1,3)] by blast
qed

text \<open>
  A history with an earlier user turn that still carries a tag: only the last user
  message is stripped, and the history written to the chat file keeps the earlier one.
\<close>

theorem strip_changes_last_user_text_only_witness:
  "is_user example_user
   \<and> strip_last_user example_strip
        [example_user, example_chat_assistant, example_user, example_assistant]
      = Inr [example_user, example_chat_assistant, example_user_stripped, example_assistant]
   \<and> body (example_env\<lparr>generate_command := \<lambda>th ch ui pr.
              Inr [example_user, example_chat_assistant, example_user, example_assistant]\<rparr>)
        example_args [] (PyList [])
      = ([Generate Do [] (PyList []) ''list files'' ''openai'',
          Print ''Command: ls -la # lists all files'',
          Print ''__VITY_CMD__:ls -la # lists all files'',
          Appended (Home ''.zsh_history'') ('': 1730000000:0;ls -la # lists all files'' @ [CHR 0x0A]),
          Truncated (Path ''chat.json''),
          Dumped (Path ''chat.json'')
            [example_user, example_chat_assistant, example_user_stripped, example_assistant]],
         Inr ())"
proof -
  let ?h = "[example_user, example_chat_assistant, example_user, example_assistant]"
  let ?E = "example_env\<lparr>generate_command := \<lambda>th ch ui pr. Inr ?h\<rparr>"
  have g: "snd (generate ?E example_args [] (PyList [])) = Inr ?h"
    by (simp add: generate_def example_args_def)
  have iu: "is_user example_user"
    by (simp add: is_user_def example_user_def)
  then have u: "\<exists>m\<in>set ?h. is_user m" by simp
  have s: "strip_last_user (remove_terminal_history_tags ?E) ?h
      = Inr [example_user, example_chat_assistant, example_user_stripped, example_assistant]"
    by (simp add: strip_last_user_def strip_message_def string_defs example_defs)
  have r: "remove_terminal_history_tags ?E = example_strip"
    by (simp add: example_env_def)
  have b: "body ?E example_args [] (PyList [])
      = ([Generate Do [] (PyList []) ''list files'' ''openai'',
          Print ''Command: ls -la # lists all files'',
          Print ''__VITY_CMD__:ls -la # lists all files'',
          Appended (Home ''.zsh_history'') ('': 1730000000:0;ls -la # lists all files'' @ [CHR 0x0A]),
          Truncated (Path ''chat.json''),
          Dumped (Path ''chat.json'')
            [example_user, example_chat_assistant, example_user_stripped, example_assistant]],
         Inr ())"
    by (simp add: run_defs string_defs example_defs)
  have w: "\<forall>p x. Dumped p x \<in> set (fst (body ?E example_args [] (PyList [])))
      \<longrightarrow> x = [example_user, example_chat_assistant, example_user_stripped, example_assistant]"
    using strip_changes_last_user_text_only [OF g u s] by (rule conjunct2)
  have s': "strip_last_user example_strip ?h
      = Inr [example_user, example_chat_assistant, example_user_stripped, example_assistant]"
    using s unfolding r .
  from w iu s' b show ?thesis by simp
qed

subsection \<open>C9: a history without an assistant message\<close>







subsection \<open>C2: which exceptions the top-level handler catches\<close>

text \<open>
  Claim C2 says that every exception of steps 1 to 6 other than the tolerated ones is
  caught at the top level, and that an unexpected error while reading either context file
  never escapes. The \<open>try\<close> of line 194 starts after both files were read: a
  \<open>PermissionError\<close> from \<open>open\<close> on the history file, or on the chat file, is caught by
  no handler; nothing is reported as an error line and the exception ends the process.
\<close>

theorem unexpected_read_error_escapes:
  "main (example_env\<lparr>read_text := \<lambda>p. Inl permission_denied\<rparr>) example_args
     = ([], Uncaught permission_denied)
   \<and> main (example_env\<lparr>json_load := \<lambda>p. Inl permission_denied\<rparr>) example_args
     = ([Print (history_warning ''session.log'')], Uncaught permission_denied)"
  by (simp add: main_def load_terminal_history_def load_chat_history_def example_defs)

text \<open>
  C2 as amended: once both context files are loaded, an exception raised during
  generation, stripping, extraction (finding the last assistant message, reading its
  text, parsing it) or persisting is the exception the body of the \<open>try\<close> ends with, and
  whatever exception the body ends with is caught at the top level: the error line, the
  cross mark (U+274C, three bytes in UTF-8) followed by \<open> Error: {message}\<close>, is the last
  output and the process exits with status 1. An exception ends the process uncaught
  exactly when it comes from reading the terminal-history file and is not
  \<open>FileNotFoundError\<close>, or from loading the chat file and is neither
  \<open>FileNotFoundError\<close> nor \<open>JSONDecodeError\<close>.
\<close>

theorem handled_region_reports_every_exception:
  "(\<forall>evs1 th evs2 ch evs r.
      load_terminal_history E A = (evs1, Inr th) \<longrightarrow>
      load_chat_history E A = (evs2, Inr ch) \<longrightarrow>
      body E A th ch = (evs, r) \<longrightarrow>
        main E A =
          (evs1 @ evs2 @ [Print thinking] @ evs
             @ (case r of Inl e \<Rightarrow> [Print (error_line e)] | Inr u \<Rightarrow> []),
           (case r of Inl e \<Rightarrow> Exited 1 | Inr u \<Rightarrow> Returned))
      \<and> (\<forall>e. snd (generate E A th ch) = Inl e \<longrightarrow> r = Inl e)
      \<and> (\<forall>h e. snd (generate E A th ch) = Inr h \<longrightarrow>
              strip_last_user (remove_terminal_history_tags E) h = Inl e \<longrightarrow> r = Inl e)
      \<and> (\<forall>h h' e. snd (generate E A th ch) = Inr h \<longrightarrow>
              strip_last_user (remove_terminal_history_tags E) h = Inr h' \<longrightarrow>
              last_assistant h' = Inl e \<longrightarrow> r = Inl e)
      \<and> (\<forall>h h' msg e. snd (generate E A th ch) = Inr h \<longrightarrow>
              strip_last_user (remove_terminal_history_tags E) h = Inr h' \<longrightarrow>
              last_assistant h' = Inr (Some msg) \<longrightarrow>
              message_text msg = Inl e \<longrightarrow> r = Inl e)
      \<and> (\<forall>h h' msg content e. command A = Do \<longrightarrow>
              snd (generate E A th ch) = Inr h \<longrightarrow>
              strip_last_user (remove_terminal_history_tags E) h = Inr h' \<longrightarrow>
              last_assistant h' = Inr (Some msg) \<longrightarrow>
              message_text msg = Inr content \<longrightarrow>
              cmd_string content = Inl e \<longrightarrow> r = Inl e)
      \<and> (\<forall>h h' found u e. snd (generate E A th ch) = Inr h \<longrightarrow>
              strip_last_user (remove_terminal_history_tags E) h = Inr h' \<longrightarrow>
              last_assistant h' = Inr found \<longrightarrow>
              snd (emit E A found) = Inr u \<longrightarrow>
              snd (save_chat E A h') = Inl e \<longrightarrow> r = Inl e))
   \<and> (\<forall>x. snd (main E A) = Uncaught x \<longleftrightarrow>
        (\<exists>p. history_file A = Some p \<and> p \<noteq> [] \<and> read_text E p = Inl x
             \<and> class_of x \<noteq> FileNotFoundError)
        \<or> ((\<exists>th. snd (load_terminal_history E A) = Inr th)
           \<and> (\<exists>p. chat_file A = Some p \<and> p \<noteq> [] \<and> json_load E p = Inl x
                \<and> class_of x \<noteq> FileNotFoundError \<and> class_of x \<noteq> JSONDecodeError)))
   \<and> (\<forall>e. error_line e = [CHR 0xE2, CHR 0x9D, CHR 0x8C] @ '' Error: '' @ str_of e)"
proof (intro conjI allI impI)
  fix evs1 th evs2 ch evs r
  assume "load_terminal_history E A = (evs1, Inr th)"
    and "load_chat_history E A = (evs2, Inr ch)"
    and "body E A th ch = (evs, r)"
  then show "main E A =
          (evs1 @ evs2 @ [Print thinking] @ evs
             @ (case r of Inl e \<Rightarrow> [Print (error_line e)] | Inr u \<Rightarrow> []),
           (case r of Inl e \<Rightarrow> Exited 1 | Inr u \<Rightarrow> Returned))"
    by (cases r) (simp_all add: main_def handled_def)
next
  fix th ch evs r e
  assume "body E A th ch = (evs, r)" and "snd (generate E A th ch) = Inl e"
  then show "r = Inl e" by (simp add: body_steps)
next
  fix th ch evs r h e
  assume "body E A th ch = (evs, r)" and "snd (generate E A th ch) = Inr h"
    and "strip_last_user (remove_terminal_history_tags E) h = Inl e"
  then show "r = Inl e" by (simp add: body_steps)
next
  fix th ch evs r h h' e
  assume "body E A th ch = (evs, r)" and "snd (generate E A th ch) = Inr h"
    and "strip_last_user (remove_terminal_history_tags E) h = Inr h'"
    and "last_assistant h' = Inl e"
  then show "r = Inl e" by (simp add: body_steps)
next
  fix th ch evs r h h' msg e
  assume b: "body E A th ch = (evs, r)" and g: "snd (generate E A th ch) = Inr h"
    and s: "strip_last_user (remove_terminal_history_tags E) h = Inr h'"
    and l: "last_assistant h' = Inr (Some msg)"
    and m: "message_text msg = Inl e"
  have "truthy msg" using l by (rule last_assistant_truthy)
  with m have "snd (emit E A (Some msg)) = Inl e"
    by (simp add: emit_def emit_command_def emit_chat_def bind_run_def split: mode.splits)
  with b g s l show "r = Inl e" by (simp add: body_steps)
next
  fix th ch evs r h h' msg content e
  assume d: "command A = Do"
    and b: "body E A th ch = (evs, r)" and g: "snd (generate E A th ch) = Inr h"
    and s: "strip_last_user (remove_terminal_history_tags E) h = Inr h'"
    and l: "last_assistant h' = Inr (Some msg)"
    and m: "message_text msg = Inr content"
    and c: "cmd_string content = Inl e"
  have "truthy msg" using l by (rule last_assistant_truthy)
  with d m c have "snd (emit E A (Some msg)) = Inl e"
    by (simp add: emit_def emit_command_def bind_run_def)
  with b g s l show "r = Inl e" by (simp add: body_steps)
next
  fix th ch evs r h h' found u e
  assume "body E A th ch = (evs, r)" and "snd (generate E A th ch) = Inr h"
    and "strip_last_user (remove_terminal_history_tags E) h = Inr h'"
    and "last_assistant h' = Inr found"
    and "snd (emit E A found) = Inr u"
    and "snd (save_chat E A h') = Inl e"
  then show "r = Inl e" by (simp add: body_steps)
next
  fix x
  show "snd (main E A) = Uncaught x \<longleftrightarrow>
        (\<exists>p. history_file A = Some p \<and> p \<noteq> [] \<and> read_text E p = Inl x
             \<and> class_of x \<noteq> FileNotFoundError)
        \<or> ((\<exists>th. snd (load_terminal_history E A) = Inr th)
           \<and> (\<exists>p. chat_file A = Some p \<and> p \<noteq> [] \<and> json_load E p = Inl x
                \<and> class_of x \<noteq> FileNotFoundError \<and> class_of x \<noteq> JSONDecodeError))"
    unfolding main_uncaught load_terminal_history_raises load_chat_history_raises ..
next
  fix e
  show "error_line e = [CHR 0xE2, CHR 0x9D, CHR 0x8C] @ '' Error: '' @ str_of e"
    by (simp add: error_line_def cross_mark_def)
qed

text \<open>A collaborator that raises: the error is reported and the status is 1.\<close>

theorem handled_region_reports_every_exception_witness:
  "snd (generate (example_env\<lparr>generate_command := \<lambda>th ch ui pr. Inl connection_failed\<rparr>)
          example_args [] (PyList [])) = Inl connection_failed
   \<and> main (example_env\<lparr>generate_command := \<lambda>th ch ui pr. Inl connection_failed\<rparr>) example_args
     = ([Print (history_warning ''session.log''), Print thinking,
         Generate Do [] (PyList []) ''list files'' ''openai'',
         Print ([CHR 0xE2, CHR 0x9D, CHR 0x8C] @ '' Error: Connection error.'')], Exited 1)"
proof -
  let ?E = "example_env\<lparr>generate_command := \<lambda>th ch ui pr. Inl connection_failed\<rparr>"
  have t: "load_terminal_history ?E example_args = ([Print (history_warning ''session.log'')], Inr [])"
    by (simp add: load_terminal_history_def example_defs)
  have c: "load_chat_history ?E example_args = ([], Inr (PyList []))"
    by (simp add: load_chat_history_def example_defs)
  have g: "generate ?E example_args [] (PyList [])
      = ([Generate Do [] (PyList []) ''list files'' ''openai''], Inl connection_failed)"
    by (simp add: generate_def user_input_of_def provider_of_def string_defs
        example_env_def example_args_def)
  obtain evs r where b: "body ?E example_args [] (PyList []) = (evs, r)"
    by (cases "body ?E example_args [] (PyList [])")
  note all = handled_region_reports_every_exception [of ?E example_args,
      THEN conjunct1, rule_format, OF t c b]
  note line = handled_region_reports_every_exception [of ?E example_args,
      THEN conjunct2, THEN conjunct2, rule_format, of connection_failed]
  from all g have r: "r = Inl connection_failed" by simp
  from b g have evs: "evs = [Generate Do [] (PyList []) ''list files'' ''openai'']"
    by (simp add: body_steps)
  from all r evs line g show ?thesis
    by (simp add: connection_failed_def)
qed

end
